theory Spec2Isabelle
  imports Complex_Main
begin

section \<open>Python values, exceptions and text\<close>

text \<open>
  The values a decoded JSON document can hold, as Python objects. A float is represented
  by the number it denotes; the program only tests such a value for truth and formats it.
\<close>

datatype pyval =
    PNone
  | PBool bool
  | PInt int
  | PFloat real
  | PStr string
  | PList "pyval list"
  | PDict "(string \<times> pyval) list"

text \<open>
  Exceptions are values: the class and the text that \<open>str(e)\<close> gives. Every exception the
  script or its libraries raise synchronously derives from \<open>Exception\<close>.
\<close>

datatype exn_class =
    RegistrationApiError
  | HTTPError
  | ConnectionError
  | Timeout
  | JSONDecodeError
  | KeyError
  | TypeError
  | ValidationError
  | AttributeError
  | OtherException string

datatype exn = Exn (exn_type: exn_class) (exn_str: string)

fun class_name :: "exn_class \<Rightarrow> string" where
  "class_name RegistrationApiError = ''RegistrationApiError''"
| "class_name HTTPError = ''HTTPError''"
| "class_name ConnectionError = ''ConnectionError''"
| "class_name Timeout = ''Timeout''"
| "class_name JSONDecodeError = ''JSONDecodeError''"
| "class_name KeyError = ''KeyError''"
| "class_name TypeError = ''TypeError''"
| "class_name ValidationError = ''ValidationError''"
| "class_name AttributeError = ''AttributeError''"
| "class_name (OtherException n) = n"

text \<open>Decimal text of an integer, as \<open>str(int)\<close> and an f-string field produce it.\<close>

definition digit_char :: "nat \<Rightarrow> char" where
  "digit_char d = ''0123456789'' ! d"

fun str_nat :: "nat \<Rightarrow> string" where
  "str_nat n = (if n < 10 then [digit_char n] else str_nat (n div 10) @ [digit_char (n mod 10)])"

declare str_nat.simps [simp del]

definition str_int :: "int \<Rightarrow> string" where
  "str_int i = (if i < 0 then CHR ''-'' # str_nat (nat (- i)) else str_nat (nat i))"

text \<open>A name between single quotes, as \<open>repr\<close> writes a plain identifier.\<close>

definition quoted :: "string \<Rightarrow> string" where
  "quoted s = CHR 0x27 # s @ [CHR 0x27]"

text \<open>\<open>str.rstrip("/")\<close>: drop every trailing slash.\<close>

definition rstrip_slash :: "string \<Rightarrow> string" where
  "rstrip_slash s = rev (dropWhile (\<lambda>c. c = CHR ''/'') (rev s))"

text \<open>Truth value of an object, as \<open>if access_token:\<close> tests it.\<close>

fun truthy :: "pyval \<Rightarrow> bool" where
  "truthy PNone = False"
| "truthy (PBool b) = b"
| "truthy (PInt n) = (n \<noteq> 0)"
| "truthy (PFloat x) = (x \<noteq> 0)"
| "truthy (PStr s) = (s \<noteq> [])"
| "truthy (PList xs) = (xs \<noteq> [])"
| "truthy (PDict kvs) = (kvs \<noteq> [])"

fun type_name :: "pyval \<Rightarrow> string" where
  "type_name PNone = ''NoneType''"
| "type_name (PBool b) = ''bool''"
| "type_name (PInt n) = ''int''"
| "type_name (PFloat x) = ''float''"
| "type_name (PStr s) = ''str''"
| "type_name (PList xs) = ''list''"
| "type_name (PDict kvs) = ''dict''"

text \<open>
  Subscription \<open>obj[key]\<close> with a string key: a dict looks the key up and raises KeyError
  when it is absent; every other JSON value raises TypeError.
\<close>

fun getitem :: "pyval \<Rightarrow> string \<Rightarrow> exn + pyval" where
  "getitem (PDict kvs) k =
     (case map_of kvs k of
        None \<Rightarrow> Inl (Exn KeyError (quoted k))
      | Some v \<Rightarrow> Inr v)"
| "getitem (PList xs) k = Inl (Exn TypeError ''list indices must be integers or slices, not str'')"
| "getitem (PStr s) k =
     Inl (Exn TypeError (''string indices must be integers, not '' @ quoted ''str''))"
| "getitem v k = Inl (Exn TypeError (quoted (type_name v) @ '' object is not subscriptable''))"

section \<open>Data model\<close>

record SiteRegistrationRequest =
  site_name :: string
  public_key :: string

text \<open>\<open>BaseModel.model_dump()\<close> of the request: a dict of the declared fields, in order.\<close>

definition model_dump :: "SiteRegistrationRequest \<Rightarrow> (string \<times> pyval) list" where
  "model_dump r = [(''site_name'', PStr (site_name r)), (''public_key'', PStr (public_key r))]"

text \<open>A datetime is kept as its ISO 8601 text; the script never computes with it.\<close>

type_synonym datetime = string

record SiteRegistrationResponse =
  resp_id :: int
  resp_site_name :: string
  created_at :: datetime
  created_by :: string

record RegistrationClient =
  api_url :: string
  oidc_token_url :: string
  oidc_client_id :: string
  oidc_client_secret :: string
  timeout :: int

text \<open>One call of \<open>requests.post\<close>: the URL and the keyword arguments given.\<close>

record request =
  req_url :: string
  req_data :: "(string \<times> string) list option"
  req_json :: "(string \<times> pyval) list option"
  req_headers :: "(string \<times> string) list"
  req_timeout :: "int option"

text \<open>
  What the script reads of a \<open>requests.Response\<close>: the status, the raw text, the outcome
  of \<open>.json()\<close> (the decoder's message when the body is not JSON), and the reason and URL
  that \<open>raise_for_status\<close> quotes.
\<close>

record response =
  status_code :: int
  resp_text :: string
  json_result :: "string + pyval"
  reason :: string
  resp_url :: string

text \<open>
  The surroundings of the script. \<open>http_post\<close> is the network: given the calls made so
  far and the present call, it raises a transport exception or answers. \<open>model_validate\<close>
  is pydantic's validation of the keyword arguments of \<open>SiteRegistrationResponse\<close>
  (the message of the ValidationError when they do not fit). \<open>py_str\<close> is \<open>str()\<close> on
  floats and containers. The last three are what the metadata calls return.
\<close>

record env =
  http_post :: "request list \<Rightarrow> request \<Rightarrow> exn + response"
  model_validate :: "(string \<times> pyval) list \<Rightarrow> string + SiteRegistrationResponse"
  py_str :: "pyval \<Rightarrow> string"
  hostname :: string
  os_name :: string
  uuid4 :: string

datatype log_level = INFO | ERROR

text \<open>
  The observable effects: the calls of \<open>requests.post\<close> in order, the calls of the module
  logger (level, message, extra), and the lines printed to each stream.
\<close>

record io =
  posts :: "request list"
  logs :: "(log_level \<times> string \<times> (string \<times> pyval) list) list"
  stdout :: "string list"
  stderr :: "string list"

definition io_init :: io where
  "io_init = \<lparr>posts = [], logs = [], stdout = [], stderr = []\<rparr>"

definition logger_info :: "string \<Rightarrow> io \<Rightarrow> io" where
  "logger_info msg s = s\<lparr>logs := logs s @ [(INFO, msg, [])]\<rparr>"

definition logger_error :: "string \<Rightarrow> (string \<times> pyval) list \<Rightarrow> io \<Rightarrow> io" where
  "logger_error msg extra s = s\<lparr>logs := logs s @ [(ERROR, msg, extra)]\<rparr>"

definition requests_post :: "env \<Rightarrow> request \<Rightarrow> io \<Rightarrow> (exn + response) \<times> io" where
  "requests_post e req s = (http_post e (posts s) req, s\<lparr>posts := posts s @ [req]\<rparr>)"

text \<open>
  \<open>Response.raise_for_status()\<close> of the requests library: HTTPError for 400 to 599,
  nothing otherwise.
\<close>

definition raise_for_status :: "response \<Rightarrow> exn + unit" where
  "raise_for_status r =
     (if 400 \<le> status_code r \<and> status_code r < 500 then
        Inl (Exn HTTPError (str_int (status_code r) @ '' Client Error: '' @ reason r
                              @ '' for url: '' @ resp_url r))
      else if 500 \<le> status_code r \<and> status_code r < 600 then
        Inl (Exn HTTPError (str_int (status_code r) @ '' Server Error: '' @ reason r
                              @ '' for url: '' @ resp_url r))
      else Inr ())"

text \<open>An f-string field \<open>{v}\<close>.\<close>

definition format_value :: "env \<Rightarrow> pyval \<Rightarrow> string" where
  "format_value e v =
     (case v of
        PStr s \<Rightarrow> s
      | PInt n \<Rightarrow> str_int n
      | PBool b \<Rightarrow> (if b then ''True'' else ''False'')
      | PNone \<Rightarrow> ''None''
      | _ \<Rightarrow> py_str e v)"

section \<open>RegistrationClient\<close>

text \<open>\<open>__init__\<close>; the timeout argument defaults to 10.\<close>

definition RegistrationClient_init ::
  "string \<Rightarrow> string \<Rightarrow> string \<Rightarrow> string \<Rightarrow> int option \<Rightarrow> RegistrationClient" where
  "RegistrationClient_init url token_url client_id client_secret tmo =
     \<lparr>api_url = rstrip_slash url,
      oidc_token_url = token_url,
      oidc_client_id = client_id,
      oidc_client_secret = client_secret,
      timeout = (case tmo of None \<Rightarrow> 10 | Some t \<Rightarrow> t)\<rparr>"

text \<open>The arguments of the \<open>requests.post\<close> call in \<open>_get_jwt_access_token\<close>.\<close>

definition token_request :: "RegistrationClient \<Rightarrow> request" where
  "token_request self =
     \<lparr>req_url = oidc_token_url self,
      req_data = Some [(''grant_type'', ''client_credentials''),
                       (''client_id'', oidc_client_id self),
                       (''client_secret'', oidc_client_secret self)],
      req_json = None,
      req_headers = [(''Content-Type'', ''application/x-www-form-urlencoded'')],
      req_timeout = None\<rparr>"

text \<open>
  Every method takes \<open>self\<close> and the effects so far, and returns its outcome (\<open>Inl\<close> the
  exception raised), \<open>self\<close> as the method leaves it, and the effects.
\<close>

definition get_jwt_access_token ::
  "env \<Rightarrow> RegistrationClient \<Rightarrow> io \<Rightarrow> (exn + pyval) \<times> RegistrationClient \<times> io" where
  "get_jwt_access_token e self s =
     (case requests_post e (token_request self) s of
        (Inl ex, s1) \<Rightarrow> (Inl ex, self, s1)
      | (Inr token_resp, s1) \<Rightarrow>
          (case raise_for_status token_resp of
             Inl ex \<Rightarrow> (Inl ex, self, s1)
           | Inr u \<Rightarrow>
               (case json_result token_resp of
                  Inl msg \<Rightarrow> (Inl (Exn JSONDecodeError msg), self, s1)
                | Inr body \<Rightarrow>
                    (case getitem body ''access_token'' of
                       Inl ex \<Rightarrow> (Inl ex, self, s1)
                     | Inr access_token \<Rightarrow> (Inr access_token, self, s1)))))"

definition base_headers :: "(string \<times> string) list" where
  "base_headers = [(''Accept'', ''application/json''), (''Content-Type'', ''application/json'')]"

definition get_headers ::
  "env \<Rightarrow> RegistrationClient \<Rightarrow> io \<Rightarrow> (exn + (string \<times> string) list) \<times> RegistrationClient \<times> io" where
  "get_headers e self s =
     (let headers = base_headers in
      case get_jwt_access_token e self s of
        (Inl ex, self1, s1) \<Rightarrow> (Inl ex, self1, s1)
      | (Inr access_token, self1, s1) \<Rightarrow>
          (let s2 = logger_info (''Access token: '' @ format_value e access_token) s1 in
           (Inr (if truthy access_token
                 then headers @ [(''Authorization'', ''Bearer '' @ format_value e access_token)]
                 else headers),
            self1, s2)))"

definition safe_json :: "response \<Rightarrow> pyval" where
  "safe_json r = (case json_result r of Inl msg \<Rightarrow> PNone | Inr v \<Rightarrow> v)"

text \<open>
  \<open>SiteRegistrationResponse(**response.json())\<close>: the body must decode, the decoded value
  must be a mapping, and its items must validate. The text of the TypeError names the
  class without the module that the interpreter puts before it.
\<close>

definition deserialize :: "env \<Rightarrow> response \<Rightarrow> exn + SiteRegistrationResponse" where
  "deserialize e r =
     (case json_result r of
        Inl msg \<Rightarrow> Inl (Exn JSONDecodeError msg)
      | Inr (PDict kvs) \<Rightarrow>
          (case model_validate e kvs of
             Inl msg \<Rightarrow> Inl (Exn ValidationError msg)
           | Inr res \<Rightarrow> Inr res)
      | Inr v \<Rightarrow>
          Inl (Exn TypeError (''SiteRegistrationResponse() argument after ** must be a mapping, not ''
                               @ type_name v)))"

text \<open>The arguments of the \<open>requests.post\<close> call in \<open>register_site\<close>.\<close>

definition registration_request ::
  "string \<Rightarrow> (string \<times> pyval) list \<Rightarrow> (string \<times> string) list \<Rightarrow> int \<Rightarrow> request" where
  "registration_request url payload headers tmo =
     \<lparr>req_url = url, req_data = None, req_json = Some payload,
      req_headers = headers, req_timeout = Some tmo\<rparr>"

definition api_error_message :: "int \<Rightarrow> string \<Rightarrow> string" where
  "api_error_message code body = ''Error '' @ str_int code @ '': '' @ body"

definition register_site ::
  "env \<Rightarrow> RegistrationClient \<Rightarrow> string \<Rightarrow> string \<Rightarrow> io
     \<Rightarrow> (exn + SiteRegistrationResponse) \<times> RegistrationClient \<times> io" where
  "register_site e self sname pkey s =
     (let url = api_url self @ ''/register'';
          payload = model_dump \<lparr>site_name = sname, public_key = pkey\<rparr>
      in
      case (case get_headers e self s of
              (Inl ex, self1, s1) \<Rightarrow> (Inl ex, self1, s1)
            | (Inr headers, self1, s1) \<Rightarrow>
                (case requests_post e (registration_request url payload headers (timeout self1)) s1 of
                   (r, s2) \<Rightarrow> (r, self1, s2)))
      of
        (Inl request_exc, self2, s2) \<Rightarrow>
          (Inl request_exc, self2,
           logger_error ''Error while calling registration endpoint''
             [(''url'', PStr url), (''payload'', PDict payload),
              (''exception_type'', PStr (class_name (exn_type request_exc))),
              (''exception'', PStr (exn_str request_exc))] s2)
      | (Inr resp, self2, s2) \<Rightarrow>
          if status_code resp \<noteq> 201 then
            (Inl (Exn RegistrationApiError (api_error_message (status_code resp) (resp_text resp))),
             self2,
             logger_error ''Registration API error''
               [(''url'', PStr url), (''payload'', PDict payload),
                (''status_code'', PInt (status_code resp)),
                (''response_text'', PStr (resp_text resp)),
                (''response_json'', safe_json resp)] s2)
          else (deserialize e resp, self2, s2))"

section \<open>Command line\<close>

definition usage :: string where
  "usage = ''Usage: register.py <api_url> <site_name> <public_key> <oidc_token_url> <oidc_client_id> <oidc_client_secret>''"

text \<open>
  \<open>result.get(key)\<close> on the value \<open>register_site\<close> returns. The class declares the four
  fields only and pydantic's BaseModel has no attribute \<open>get\<close>, so the attribute lookup
  raises AttributeError before the call.
\<close>

definition response_get :: "SiteRegistrationResponse \<Rightarrow> string \<Rightarrow> exn + pyval" where
  "response_get result k =
     Inl (Exn AttributeError (quoted ''SiteRegistrationResponse'' @ '' object has no attribute ''
                               @ quoted ''get''))"

text \<open>The body of the \<open>try\<close> block of \<open>main\<close>.\<close>

definition main_try ::
  "env \<Rightarrow> RegistrationClient \<Rightarrow> string \<Rightarrow> string \<Rightarrow> io \<Rightarrow> (exn + unit) \<times> io" where
  "main_try e registration_client sname pkey s =
     (case register_site e registration_client sname pkey s of
        (Inl ex, c, s1) \<Rightarrow> (Inl ex, s1)
      | (Inr result, c, s1) \<Rightarrow>
          (let s2 = logger_info ''Registration successful!'' s1 in
           case response_get result ''id'' of
             Inl ex \<Rightarrow> (Inl ex, s2)
           | Inr v1 \<Rightarrow>
               (let s3 = logger_info ''Assigned ID:'' s2 in
                case response_get result ''github_repo_url'' of
                  Inl ex \<Rightarrow> (Inl ex, s3)
                | Inr v2 \<Rightarrow>
                    (let s4 = logger_info ''Github repo: '' s3 in
                     case response_get result ''created_at'' of
                       Inl ex \<Rightarrow> (Inl ex, s4)
                     | Inr v3 \<Rightarrow> (Inr (), logger_info ''Created at:'' s4)))))"

text \<open>\<open>main\<close> on \<open>sys.argv\<close>: the exit status of the process and the effects.\<close>

definition main :: "env \<Rightarrow> string list \<Rightarrow> int \<times> io" where
  "main e argv =
     (if length argv < 7 then (1, io_init\<lparr>stderr := [usage]\<rparr>)
      else
        let url = argv ! 1;
            sname = argv ! 2;
            pkey = argv ! 3;
            token_url = argv ! 4;
            client_id = argv ! 5;
            client_secret = argv ! 6;
            s1 = logger_info (''Registering site '' @ [CHR 0x27] @ sname @ '' @ '' @ [CHR 0x27] @ url)
                   io_init;
            s2 = logger_info (''OIDC token URL: '' @ token_url @ '', OIDC client: '' @ client_id
                                @ '', OIDC secret: '' @ client_secret) s1;
            registration_client = RegistrationClient_init url token_url client_id client_secret None;
            metadata = [(''hostname'', hostname e), (''os'', os_name e), (''uuid'', uuid4 e),
                        (''public_key'', pkey)]
        in
        case main_try e registration_client sname pkey s2 of
          (Inl ex, s3) \<Rightarrow> (0, s3\<lparr>stdout := stdout s3 @ [''Registration failed: '' @ exn_str ex]\<rparr>)
        | (Inr u, s3) \<Rightarrow> (0, s3))"

section \<open>Concrete runs\<close>

text \<open>
  A network that answers the token URL with one fixed response and every other URL with
  one fixed outcome, a validator that accepts the four fields as an integer and three
  strings, and the command line of the runs evaluated below.
\<close>

definition ex_response :: "int \<Rightarrow> string \<Rightarrow> string + pyval \<Rightarrow> response" where
  "ex_response code body js =
     \<lparr>status_code = code, resp_text = body, json_result = js, reason = ''reason'',
      resp_url = ''url''\<rparr>"

definition ex_net :: "response \<Rightarrow> exn + response \<Rightarrow> request list \<Rightarrow> request \<Rightarrow> exn + response" where
  "ex_net token_resp reg_outcome hist req =
     (if req_url req = ''https://idp.example/token'' then Inr token_resp else reg_outcome)"

definition ex_validate :: "(string \<times> pyval) list \<Rightarrow> string + SiteRegistrationResponse" where
  "ex_validate kvs =
     (case map_of kvs ''id'' of
        Some (PInt i) \<Rightarrow>
          (case map_of kvs ''site_name'' of
             Some (PStr n) \<Rightarrow>
               (case map_of kvs ''created_at'' of
                  Some (PStr t) \<Rightarrow>
                    (case map_of kvs ''created_by'' of
                       Some (PStr b) \<Rightarrow>
                         Inr \<lparr>resp_id = i, resp_site_name = n, created_at = t, created_by = b\<rparr>
                     | _ \<Rightarrow> Inl ''created_by'')
                | _ \<Rightarrow> Inl ''created_at'')
           | _ \<Rightarrow> Inl ''site_name'')
      | _ \<Rightarrow> Inl ''id'')"

definition ex_py_str :: "pyval \<Rightarrow> string" where
  "ex_py_str v = type_name v"

definition ex_env :: "response \<Rightarrow> exn + response \<Rightarrow> env" where
  "ex_env token_resp reg_outcome =
     \<lparr>http_post = ex_net token_resp reg_outcome, model_validate = ex_validate,
      py_str = ex_py_str, hostname = ''node1'', os_name = ''Linux'',
      uuid4 = ''00000000-0000-4000-8000-000000000000''\<rparr>"

definition ex_token_response :: "int \<Rightarrow> pyval \<Rightarrow> response" where
  "ex_token_response code tok =
     ex_response code ''token body'' (Inr (PDict [(''access_token'', tok), (''token_type'', PStr ''Bearer'')]))"

definition ex_created :: response where
  "ex_created =
     ex_response 201 ''created body''
       (Inr (PDict [(''id'', PInt 7), (''site_name'', PStr ''alpha''),
                    (''created_at'', PStr ''2024-01-01T00:00:00Z''), (''created_by'', PStr ''cid'')]))"

definition ex_conflict :: response where
  "ex_conflict = ex_response 409 ''site exists'' (Inl ''Expecting value: line 1 column 1 (char 0)'')"

definition ex_refused :: exn where
  "ex_refused = Exn ConnectionError ''Connection refused''"

definition ex_argv :: "string list" where
  "ex_argv = [''register.py'', ''https://api.example/'', ''alpha'', ''PUBKEY123'',
              ''https://idp.example/token'', ''cid'', ''secret'']"

definition ex_client :: RegistrationClient where
  "ex_client =
     RegistrationClient_init ''https://api.example/'' ''https://idp.example/token'' ''cid'' ''secret'' None"

text \<open>Both endpoints answer as the script expects.\<close>

definition env_ok :: env where
  "env_ok = ex_env (ex_token_response 200 (PStr ''tok'')) (Inr ex_created)"

text \<open>The token endpoint answers 201 Created with a token in the body.\<close>

definition env_token_201 :: env where
  "env_token_201 = ex_env (ex_token_response 201 (PStr ''tok'')) (Inr ex_created)"

text \<open>The token endpoint answers 200 with an empty access token.\<close>

definition env_token_empty :: env where
  "env_token_empty = ex_env (ex_token_response 200 (PStr [])) (Inr ex_created)"

text \<open>The token endpoint answers 500.\<close>

definition env_token_500 :: env where
  "env_token_500 = ex_env (ex_token_response 500 PNone) (Inr ex_created)"

text \<open>The registration endpoint answers 409, or cannot be reached.\<close>

definition env_conflict :: env where
  "env_conflict = ex_env (ex_token_response 200 (PStr ''tok'')) (Inr ex_conflict)"

definition env_refused :: env where
  "env_refused = ex_env (ex_token_response 200 (PStr ''tok'')) (Inl ex_refused)"

section \<open>Effects and outcomes of the methods\<close>


lemma get_jwt_effect:
  "get_jwt_access_token e self s = (r, self1, s1) \<Longrightarrow>
     self1 = self \<and> s1 = s\<lparr>posts := posts s @ [token_request self]\<rparr>"
  by (auto simp: get_jwt_access_token_def requests_post_def split: sum.splits prod.splits)

lemma get_jwt_outcome:
  "fst (get_jwt_access_token e self s) =
     (case http_post e (posts s) (token_request self) of
        Inl ex \<Rightarrow> Inl ex
      | Inr token_resp \<Rightarrow>
          (case raise_for_status token_resp of
             Inl ex \<Rightarrow> Inl ex
           | Inr u \<Rightarrow>
               (case json_result token_resp of
                  Inl msg \<Rightarrow> Inl (Exn JSONDecodeError msg)
                | Inr body \<Rightarrow> getitem body ''access_token'')))"
  by (auto simp: get_jwt_access_token_def requests_post_def split: sum.splits prod.splits)

lemma get_headers_effect:
  "get_headers e self s = (r, self1, s1) \<Longrightarrow>
     self1 = self \<and> posts s1 = posts s @ [token_request self]
       \<and> stdout s1 = stdout s \<and> stderr s1 = stderr s"
  by (auto simp: get_headers_def logger_info_def Let_def split: sum.splits prod.splits
      dest!: get_jwt_effect)

lemma get_headers_outcome:
  "fst (get_headers e self s) =
     (case fst (get_jwt_access_token e self s) of
        Inl ex \<Rightarrow> Inl ex
      | Inr access_token \<Rightarrow>
          Inr (if truthy access_token
               then base_headers @ [(''Authorization'', ''Bearer '' @ format_value e access_token)]
               else base_headers))"
  by (auto simp: get_headers_def Let_def split: sum.splits prod.splits)

lemma register_site_self: "fst (snd (register_site e self sname pkey s)) = self"
proof -
  obtain r1 self1 s1 where h: "get_headers e self s = (r1, self1, s1)"
    by (cases "get_headers e self s") auto
  from get_headers_effect [OF h] have "self1 = self" by simp
  with h show ?thesis
    by (cases r1) (simp_all add: register_site_def Let_def requests_post_def split: sum.splits prod.splits)
qed

lemma register_site_posts:
  "posts (snd (snd (register_site e self sname pkey s))) =
     posts s @ token_request self #
       (case fst (get_headers e self s) of
          Inl ex \<Rightarrow> []
        | Inr headers \<Rightarrow>
            [registration_request (api_url self @ ''/register'')
               [(''site_name'', PStr sname), (''public_key'', PStr pkey)] headers (timeout self)])"
proof -
  obtain r1 self1 s1 where h: "get_headers e self s = (r1, self1, s1)"
    by (cases "get_headers e self s") auto
  from get_headers_effect [OF h] have "self1 = self" "posts s1 = posts s @ [token_request self]"
    by simp_all
  with h show ?thesis
    by (cases r1)
      (simp_all add: register_site_def Let_def requests_post_def logger_error_def model_dump_def
        split: sum.splits prod.splits)
qed

lemma register_site_outcome:
  "fst (register_site e self sname pkey s) =
     (case fst (get_headers e self s) of
        Inl ex \<Rightarrow> Inl ex
      | Inr headers \<Rightarrow>
          (case http_post e (posts s @ [token_request self])
                  (registration_request (api_url self @ ''/register'')
                     [(''site_name'', PStr sname), (''public_key'', PStr pkey)] headers (timeout self)) of
             Inl ex \<Rightarrow> Inl ex
           | Inr resp \<Rightarrow>
               if status_code resp \<noteq> 201
               then Inl (Exn RegistrationApiError (api_error_message (status_code resp) (resp_text resp)))
               else deserialize e resp))"
proof -
  obtain r1 self1 s1 where h: "get_headers e self s = (r1, self1, s1)"
    by (cases "get_headers e self s") auto
  from get_headers_effect [OF h] have "self1 = self" "posts s1 = posts s @ [token_request self]"
    by simp_all
  with h show ?thesis
    by (cases r1)
      (simp_all add: register_site_def Let_def requests_post_def logger_error_def model_dump_def
        split: sum.splits prod.splits)
qed

lemma register_site_streams:
  "stdout (snd (snd (register_site e self sname pkey s))) = stdout s"
proof -
  obtain r1 self1 s1 where h: "get_headers e self s = (r1, self1, s1)"
    by (cases "get_headers e self s") auto
  from get_headers_effect [OF h] have "stdout s1 = stdout s" by simp
  with h show ?thesis
    by (cases r1)
      (simp_all add: register_site_def Let_def requests_post_def logger_error_def
        split: sum.splits prod.splits)
qed

section \<open>The claims\<close>

lemmas ex_defs = ex_response_def ex_net_def ex_validate_def ex_py_str_def ex_env_def
  ex_token_response_def ex_created_def ex_conflict_def ex_refused_def ex_argv_def ex_client_def
  env_ok_def env_token_201_def env_token_empty_def env_token_500_def env_conflict_def
  env_refused_def

lemmas run_defs = register_site_def get_headers_def get_jwt_access_token_def requests_post_def
  raise_for_status_def deserialize_def registration_request_def token_request_def
  RegistrationClient_init_def rstrip_slash_def model_dump_def base_headers_def format_value_def
  logger_info_def logger_error_def io_init_def safe_json_def api_error_message_def

text \<open>
  Claim C9. The configuration of a client is what \<open>__init__\<close> stored (the URL without its
  trailing slashes, the three OIDC fields as given, the timeout given or 10), and the client
  that \<open>register_site\<close> leaves behind is the client it was called on, whatever the outcome
  of the call; the same holds for the two private methods.
\<close>

theorem register_site_keeps_configuration:
  "fst (snd (register_site e (RegistrationClient_init url token_url client_id client_secret tmo)
               sname pkey s)) =
     \<lparr>api_url = rstrip_slash url, oidc_token_url = token_url, oidc_client_id = client_id,
      oidc_client_secret = client_secret, timeout = (case tmo of None \<Rightarrow> 10 | Some t \<Rightarrow> t)\<rparr>
   \<and> fst (snd (register_site e self sname pkey s)) = self
   \<and> fst (snd (get_headers e self s)) = self
   \<and> fst (snd (get_jwt_access_token e self s)) = self"
proof -
  have a: "fst (snd (get_headers e self s)) = self"
    using get_headers_effect [of e self s] by (cases "get_headers e self s") simp
  have b: "fst (snd (get_jwt_access_token e self s)) = self"
    using get_jwt_effect [of e self s] by (cases "get_jwt_access_token e self s") simp
  show ?thesis
    by (simp add: register_site_self a b) (simp add: RegistrationClient_init_def)
qed

text \<open>
  Claim C10. Of the calls \<open>register_site\<close> adds, the first (the token POST) has no timeout
  and the second, when the headers were obtained, has the timeout of the client; a client
  built without a timeout has 10.
\<close>

theorem register_site_timeouts:
  "map req_timeout (posts (snd (snd (register_site e self sname pkey s)))) =
     map req_timeout (posts s) @ None #
       (case fst (get_headers e self s) of Inl ex \<Rightarrow> [] | Inr headers \<Rightarrow> [Some (timeout self)])
   \<and> timeout (RegistrationClient_init url token_url client_id client_secret None) = 10"
  by (simp add: register_site_posts token_request_def registration_request_def
      RegistrationClient_init_def split: sum.splits)

text \<open>
  Claim C6. The token POST carries no JSON, and the registration POST, when it is made,
  carries exactly the two items \<open>site_name\<close> and \<open>public_key\<close> with the strings given;
  for \<open>alpha\<close> and \<open>PUBKEY123\<close> the payload is the two items with those strings.
\<close>

theorem register_site_payload:
  "map req_json (posts (snd (snd (register_site e self sname pkey s)))) =
     map req_json (posts s) @ None #
       (case fst (get_headers e self s) of
          Inl ex \<Rightarrow> []
        | Inr headers \<Rightarrow> [Some [(''site_name'', PStr sname), (''public_key'', PStr pkey)]])
   \<and> model_dump \<lparr>site_name = ''alpha'', public_key = ''PUBKEY123''\<rparr> =
       [(''site_name'', PStr ''alpha''), (''public_key'', PStr ''PUBKEY123'')]
   \<and> map req_json (posts (snd (snd (register_site env_ok ex_client ''alpha'' ''PUBKEY123'' io_init)))) =
       [None, Some [(''site_name'', PStr ''alpha''), (''public_key'', PStr ''PUBKEY123'')]]"
proof -
  have "fst (get_headers env_ok ex_client io_init) =
          Inr (base_headers @ [(''Authorization'', ''Bearer tok'')])"
    by (simp add: get_headers_outcome get_jwt_outcome ex_defs run_defs)
  then show ?thesis
    by (simp add: register_site_posts token_request_def registration_request_def model_dump_def
        io_init_def split: sum.splits)
qed

text \<open>
  Claim C7. When the headers were obtained and the call of the registration endpoint raises,
  \<open>register_site\<close> raises that same exception, and it has called the registration endpoint
  once: the calls it added are the token POST and one registration POST.
\<close>

theorem register_site_transport_error:
  assumes "fst (get_headers e self s) = Inr headers"
    and "http_post e (posts s @ [token_request self])
           (registration_request (api_url self @ ''/register'')
              [(''site_name'', PStr sname), (''public_key'', PStr pkey)] headers (timeout self))
         = Inl ex"
  shows "fst (register_site e self sname pkey s) = Inl ex
       \<and> posts (snd (snd (register_site e self sname pkey s))) =
           posts s @ [token_request self,
             registration_request (api_url self @ ''/register'')
               [(''site_name'', PStr sname), (''public_key'', PStr pkey)] headers (timeout self)]"
  using assms by (simp add: register_site_outcome register_site_posts)

text \<open>
  The run with the registration endpoint refusing the connection.
\<close>

theorem register_site_transport_error_witness:
  "fst (register_site env_refused ex_client ''alpha'' ''PUBKEY123'' io_init) =
     Inl (Exn ConnectionError ''Connection refused'')
   \<and> length (posts (snd (snd (register_site env_refused ex_client ''alpha'' ''PUBKEY123'' io_init)))) = 2"
proof -
  have h: "fst (get_headers env_refused ex_client io_init) =
             Inr (base_headers @ [(''Authorization'', ''Bearer tok'')])"
    by (simp add: get_headers_outcome get_jwt_outcome ex_defs run_defs)
  have p: "http_post env_refused (posts io_init @ [token_request ex_client])
             (registration_request (api_url ex_client @ ''/register'')
                [(''site_name'', PStr ''alpha''), (''public_key'', PStr ''PUBKEY123'')]
                (base_headers @ [(''Authorization'', ''Bearer tok'')]) (timeout ex_client))
           = Inl (Exn ConnectionError ''Connection refused'')"
    by (simp add: ex_defs run_defs)
  from register_site_transport_error [OF h p] show ?thesis by (simp add: io_init_def)
qed

text \<open>
  Claim C3, as amended. When the token endpoint answers with a status from 400 to 599,
  \<open>register_site\<close> raises the HTTPError of \<open>raise_for_status\<close> and the only call it has
  added is the token POST: the registration endpoint is not called.
\<close>

theorem token_error_status_stops_registration:
  assumes "http_post e (posts s) (token_request self) = Inr token_resp"
    and "400 \<le> status_code token_resp" and "status_code token_resp < 600"
  shows "(\<exists>msg. raise_for_status token_resp = Inl (Exn HTTPError msg)
              \<and> fst (register_site e self sname pkey s) = Inl (Exn HTTPError msg))
       \<and> posts (snd (snd (register_site e self sname pkey s))) = posts s @ [token_request self]"
proof -
  from assms(2,3) obtain msg where m: "raise_for_status token_resp = Inl (Exn HTTPError msg)"
    by (cases "status_code token_resp < 500") (auto simp: raise_for_status_def)
  with assms(1) have "fst (get_headers e self s) = Inl (Exn HTTPError msg)"
    by (simp add: get_headers_outcome get_jwt_outcome)
  with m show ?thesis
    by (simp add: register_site_outcome register_site_posts)
qed

text \<open>
  The run with the token endpoint answering 500.
\<close>

theorem token_error_status_stops_registration_witness:
  "fst (register_site env_token_500 ex_client ''alpha'' ''PUBKEY123'' io_init) =
     Inl (Exn HTTPError ''500 Server Error: reason for url: url'')
   \<and> posts (snd (snd (register_site env_token_500 ex_client ''alpha'' ''PUBKEY123'' io_init))) =
       [token_request ex_client]"
proof -
  have p: "http_post env_token_500 (posts io_init) (token_request ex_client) =
             Inr (ex_token_response 500 PNone)"
    by (simp add: ex_defs run_defs)
  have a: "400 \<le> status_code (ex_token_response 500 PNone)"
    and b: "status_code (ex_token_response 500 PNone) < 600"
    by (simp_all add: ex_defs)
  have r: "raise_for_status (ex_token_response 500 PNone) =
             Inl (Exn HTTPError ''500 Server Error: reason for url: url'')"
    by (simp add: ex_defs raise_for_status_def str_int_def str_nat.simps digit_char_def)
  from token_error_status_stops_registration [OF p a b, of "''alpha''" "''PUBKEY123''"] r
  show ?thesis by (simp add: io_init_def)
qed

text \<open>
  Claim C3, as stated, fails: a token endpoint that answers 201 with an access token in
  the body has answered a status other than 200, yet \<open>register_site\<close> goes on to call the
  registration endpoint and returns its response.
\<close>

theorem token_201_reaches_registration:
  "status_code (ex_token_response 201 (PStr ''tok'')) \<noteq> 200
   \<and> http_post env_token_201 (posts io_init) (token_request ex_client) =
       Inr (ex_token_response 201 (PStr ''tok''))
   \<and> map req_url (posts (snd (snd (register_site env_token_201 ex_client ''alpha'' ''PUBKEY123'' io_init)))) =
       [''https://idp.example/token'', ''https://api.example/register'']
   \<and> fst (register_site env_token_201 ex_client ''alpha'' ''PUBKEY123'' io_init) =
       Inr \<lparr>resp_id = 7, resp_site_name = ''alpha'', created_at = ''2024-01-01T00:00:00Z'',
            created_by = ''cid''\<rparr>"
proof -
  have h: "fst (get_headers env_token_201 ex_client io_init) =
             Inr (base_headers @ [(''Authorization'', ''Bearer tok'')])"
    by (simp add: get_headers_outcome get_jwt_outcome ex_defs run_defs)
  have a: "status_code (ex_token_response 201 (PStr ''tok'')) \<noteq> 200"
    by (simp add: ex_defs)
  have b: "http_post env_token_201 (posts io_init) (token_request ex_client) =
             Inr (ex_token_response 201 (PStr ''tok''))"
    by (simp add: ex_defs run_defs)
  have c: "map req_url (posts (snd (snd (register_site env_token_201 ex_client ''alpha'' ''PUBKEY123'' io_init)))) =
             [''https://idp.example/token'', ''https://api.example/register'']"
    by (simp add: register_site_posts h) (simp add: ex_defs run_defs)
  have d: "fst (register_site env_token_201 ex_client ''alpha'' ''PUBKEY123'' io_init) =
       Inr \<lparr>resp_id = 7, resp_site_name = ''alpha'', created_at = ''2024-01-01T00:00:00Z'',
            created_by = ''cid''\<rparr>"
    by (simp add: register_site_outcome h) (simp add: ex_defs run_defs)
  from a b c d show ?thesis by simp
qed

subsection \<open>Runs of main\<close>

text \<open>
  The outcome and the calls of \<open>register_site\<close> depend on the effects so far only through
  the calls already made, so what \<open>main\<close> logs before the call does not change them.
\<close>

lemma register_site_only_reads_posts:
  assumes "posts s = posts t"
  shows "fst (register_site e self sname pkey s) = fst (register_site e self sname pkey t)"
    and "posts (snd (snd (register_site e self sname pkey s))) =
         posts (snd (snd (register_site e self sname pkey t)))"
  unfolding register_site_outcome register_site_posts get_headers_outcome get_jwt_outcome assms
  by (rule refl)+

lemma main_try_outcome:
  "fst (main_try e c sname pkey s) =
     (case fst (register_site e c sname pkey s) of
        Inl ex \<Rightarrow> Inl ex
      | Inr result \<Rightarrow>
          Inl (Exn AttributeError (quoted ''SiteRegistrationResponse''
                 @ '' object has no attribute '' @ quoted ''get'')))"
  by (cases "register_site e c sname pkey s")
    (auto simp: main_try_def response_get_def Let_def split: sum.splits)

lemma main_try_effects:
  "posts (snd (main_try e c sname pkey s)) = posts (snd (snd (register_site e c sname pkey s)))
   \<and> stdout (snd (main_try e c sname pkey s)) = stdout s"
  using register_site_streams [of e c sname pkey s]
  by (cases "register_site e c sname pkey s")
    (auto simp: main_try_def response_get_def Let_def logger_info_def split: sum.splits)

lemma main_after_parsing:
  assumes "7 \<le> length argv"
  shows "fst (main e argv) = 0"
    and "posts (snd (main e argv)) =
           posts (snd (snd (register_site e
             (RegistrationClient_init (argv ! 1) (argv ! 4) (argv ! 5) (argv ! 6) None)
             (argv ! 2) (argv ! 3) io_init)))"
    and "stdout (snd (main e argv)) =
           (case fst (register_site e
                   (RegistrationClient_init (argv ! 1) (argv ! 4) (argv ! 5) (argv ! 6) None)
                   (argv ! 2) (argv ! 3) io_init) of
              Inl ex \<Rightarrow> [''Registration failed: '' @ exn_str ex]
            | Inr result \<Rightarrow>
                [''Registration failed: '' @ quoted ''SiteRegistrationResponse''
                   @ '' object has no attribute '' @ quoted ''get''])"
proof -
  let ?c = "RegistrationClient_init (argv ! 1) (argv ! 4) (argv ! 5) (argv ! 6) None"
  define s0 where "s0 =
     logger_info (''OIDC token URL: '' @ argv ! 4 @ '', OIDC client: '' @ argv ! 5
                    @ '', OIDC secret: '' @ argv ! 6)
       (logger_info (''Registering site '' @ [CHR 0x27] @ argv ! 2 @ '' @ '' @ [CHR 0x27] @ argv ! 1)
          io_init)"
  have p: "posts s0 = posts io_init"
    by (simp add: s0_def logger_info_def)
  have o: "stdout s0 = []"
    by (simp add: s0_def logger_info_def io_init_def)
  obtain r s3 where t: "main_try e ?c (argv ! 2) (argv ! 3) s0 = (r, s3)"
    by (cases "main_try e ?c (argv ! 2) (argv ! 3) s0") auto
  have m: "main e argv =
             (case r of
                Inl ex \<Rightarrow> (0, s3\<lparr>stdout := stdout s3 @ [''Registration failed: '' @ exn_str ex]\<rparr>)
              | Inr u \<Rightarrow> (0, s3))"
    using assms t by (simp add: main_def Let_def s0_def)
  have r: "r = (case fst (register_site e ?c (argv ! 2) (argv ! 3) io_init) of
                  Inl ex \<Rightarrow> Inl ex
                | Inr result \<Rightarrow>
                    Inl (Exn AttributeError (quoted ''SiteRegistrationResponse''
                           @ '' object has no attribute '' @ quoted ''get'')))"
    using main_try_outcome [of e ?c "argv ! 2" "argv ! 3" s0] t
      register_site_only_reads_posts(1) [OF p, of e ?c "argv ! 2" "argv ! 3"]
    by simp
  have s3: "posts s3 = posts (snd (snd (register_site e ?c (argv ! 2) (argv ! 3) io_init)))"
    "stdout s3 = []"
    using main_try_effects [of e ?c "argv ! 2" "argv ! 3" s0] t o
      register_site_only_reads_posts(2) [OF p, of e ?c "argv ! 2" "argv ! 3"]
    by simp_all
  show "fst (main e argv) = 0" by (simp add: m split: sum.splits)
  show "posts (snd (main e argv)) = posts (snd (snd (register_site e ?c (argv ! 2) (argv ! 3) io_init)))"
    by (simp add: m s3 split: sum.splits)
  show "stdout (snd (main e argv)) =
           (case fst (register_site e ?c (argv ! 2) (argv ! 3) io_init) of
              Inl ex \<Rightarrow> [''Registration failed: '' @ exn_str ex]
            | Inr result \<Rightarrow>
                [''Registration failed: '' @ quoted ''SiteRegistrationResponse''
                   @ '' object has no attribute '' @ quoted ''get''])"
    by (simp add: m s3 r split: sum.splits)
qed

text \<open>
  Claim C4. When the command line has its six arguments and \<open>register_site\<close> raises,
  \<open>main\<close> prints one line, \<open>Registration failed:\<close> followed by the text of the exception,
  and the process ends with status 0.
\<close>

theorem main_failure_exit_zero:
  assumes "7 \<le> length argv"
    and "fst (register_site e
            (RegistrationClient_init (argv ! 1) (argv ! 4) (argv ! 5) (argv ! 6) None)
            (argv ! 2) (argv ! 3) io_init) = Inl ex"
  shows "fst (main e argv) = 0
       \<and> stdout (snd (main e argv)) = [''Registration failed: '' @ exn_str ex]"
  using main_after_parsing(1,3) [OF assms(1), of e] assms(2) by simp

text \<open>
  The run with the registration endpoint answering 409.
\<close>

theorem main_failure_exit_zero_witness:
  "fst (main env_conflict ex_argv) = 0
   \<and> stdout (snd (main env_conflict ex_argv)) = [''Registration failed: Error 409: site exists'']"
proof -
  have len: "7 \<le> length ex_argv" by (simp add: ex_argv_def)
  have c: "RegistrationClient_init (ex_argv ! 1) (ex_argv ! 4) (ex_argv ! 5) (ex_argv ! 6) None
             = ex_client"
    by (simp add: ex_argv_def ex_client_def)
  have a: "ex_argv ! 2 = ''alpha''" "ex_argv ! 3 = ''PUBKEY123''"
    by (simp_all add: ex_argv_def)
  have h: "fst (get_headers env_conflict ex_client io_init) =
             Inr (base_headers @ [(''Authorization'', ''Bearer tok'')])"
    by (simp add: get_headers_outcome get_jwt_outcome ex_defs run_defs)
  have r: "fst (register_site env_conflict ex_client ''alpha'' ''PUBKEY123'' io_init) =
             Inl (Exn RegistrationApiError ''Error 409: site exists'')"
    by (simp add: register_site_outcome h)
       (simp add: ex_defs run_defs str_int_def str_nat.simps digit_char_def)
  from main_failure_exit_zero [OF len, of env_conflict "Exn RegistrationApiError ''Error 409: site exists''"]
    r c a
  show ?thesis by simp
qed

text \<open>
  Claim C5. With fewer than six arguments after the program name (or an empty \<open>sys.argv\<close>)
  \<open>main\<close> prints the line \<open>Usage: register.py\<close> with the six argument names to standard
  error and nothing else, makes no call and exits with status 1.
  With exactly six it builds the client from the first, fourth, fifth and sixth and calls
  \<open>register_site\<close> with the second and third: the calls of the run are those of that
  \<open>register_site\<close>, beginning with the token POST of that client.
\<close>

theorem main_argument_count:
  "(length args < 6 \<longrightarrow> main e (prog # args) = (1, \<lparr>posts = [], logs = [], stdout = [],
        stderr = [''Usage: register.py <api_url> <site_name> <public_key> <oidc_token_url> <oidc_client_id> <oidc_client_secret>'']\<rparr>))
   \<and> main e [] = (1, \<lparr>posts = [], logs = [], stdout = [],
        stderr = [''Usage: register.py <api_url> <site_name> <public_key> <oidc_token_url> <oidc_client_id> <oidc_client_secret>'']\<rparr>)
   \<and> (length args = 6 \<longrightarrow>
        fst (main e (prog # args)) = 0
        \<and> posts (snd (main e (prog # args))) =
            posts (snd (snd (register_site e
              (RegistrationClient_init (args ! 0) (args ! 3) (args ! 4) (args ! 5) None)
              (args ! 1) (args ! 2) io_init)))
        \<and> hd (posts (snd (main e (prog # args)))) =
            token_request (RegistrationClient_init (args ! 0) (args ! 3) (args ! 4) (args ! 5) None))"
proof -
  have short: "length args < 6 \<longrightarrow> main e (prog # args) = (1, \<lparr>posts = [], logs = [], stdout = [],
        stderr = [''Usage: register.py <api_url> <site_name> <public_key> <oidc_token_url> <oidc_client_id> <oidc_client_secret>'']\<rparr>)"
    by (simp add: main_def usage_def io_init_def)
  have none: "main e [] = (1, \<lparr>posts = [], logs = [], stdout = [],
        stderr = [''Usage: register.py <api_url> <site_name> <public_key> <oidc_token_url> <oidc_client_id> <oidc_client_secret>'']\<rparr>)"
    by (simp add: main_def usage_def io_init_def)
  have six: "fst (main e (prog # args)) = 0
        \<and> posts (snd (main e (prog # args))) =
            posts (snd (snd (register_site e
              (RegistrationClient_init (args ! 0) (args ! 3) (args ! 4) (args ! 5) None)
              (args ! 1) (args ! 2) io_init)))
        \<and> hd (posts (snd (main e (prog # args)))) =
            token_request (RegistrationClient_init (args ! 0) (args ! 3) (args ! 4) (args ! 5) None)"
    if "length args = 6"
  proof -
    from that have len: "7 \<le> length (prog # args)" by simp
    have idx: "(prog # args) ! 1 = args ! 0" "(prog # args) ! 2 = args ! 1"
      "(prog # args) ! 3 = args ! 2" "(prog # args) ! 4 = args ! 3"
      "(prog # args) ! 5 = args ! 4" "(prog # args) ! 6 = args ! 5"
      by (simp_all add: nth_Cons')
    from main_after_parsing(1,2) [OF len, of e] show ?thesis
      by (simp only: idx) (simp add: register_site_posts io_init_def)
  qed
  from short none six show ?thesis by blast
qed

text \<open>
  A command line with two arguments, and one with six.
\<close>

theorem main_argument_count_witness:
  "main env_ok [''register.py'', ''https://api.example/'', ''alpha''] = (1, \<lparr>posts = [], logs = [], stdout = [],
        stderr = [''Usage: register.py <api_url> <site_name> <public_key> <oidc_token_url> <oidc_client_id> <oidc_client_secret>'']\<rparr>)
   \<and> fst (main env_ok ex_argv) = 0
   \<and> hd (posts (snd (main env_ok ex_argv))) = token_request ex_client"
proof -
  have a: "length [''https://api.example/'', ''alpha''] < 6" by simp
  have b: "length (tl ex_argv) = 6" by (simp add: ex_argv_def)
  have c: "''register.py'' # tl ex_argv = ex_argv" by (simp add: ex_argv_def)
  have d: "RegistrationClient_init (tl ex_argv ! 0) (tl ex_argv ! 3) (tl ex_argv ! 4) (tl ex_argv ! 5) None
             = ex_client"
    by (simp add: ex_argv_def ex_client_def)
  from main_argument_count [of "[''https://api.example/'', ''alpha'']" env_ok "''register.py''"] a
  have 1: "main env_ok [''register.py'', ''https://api.example/'', ''alpha''] = (1, \<lparr>posts = [], logs = [], stdout = [],
        stderr = [''Usage: register.py <api_url> <site_name> <public_key> <oidc_token_url> <oidc_client_id> <oidc_client_secret>'']\<rparr>)"
    by blast
  from main_argument_count [of "tl ex_argv" env_ok "''register.py''"] b
  have 2: "fst (main env_ok ex_argv) = 0 \<and> hd (posts (snd (main env_ok ex_argv))) = token_request ex_client"
    unfolding c d by blast
  from 1 2 show ?thesis by simp
qed

text \<open>
  Claim C1 fails on the code. In the run where both endpoints answer as expected,
  \<open>register_site\<close> returns the response with identifier 7, and \<open>main\<close> prints a single
  line, \<open>Registration failed:\<close> with the AttributeError of \<open>result.get\<close>; neither the
  identifier nor the timestamp is printed.
\<close>

theorem main_success_prints_failure:
  "fst (register_site env_ok ex_client ''alpha'' ''PUBKEY123'' io_init) =
     Inr \<lparr>resp_id = 7, resp_site_name = ''alpha'', created_at = ''2024-01-01T00:00:00Z'',
          created_by = ''cid''\<rparr>
   \<and> RegistrationClient_init (ex_argv ! 1) (ex_argv ! 4) (ex_argv ! 5) (ex_argv ! 6) None = ex_client
   \<and> fst (main env_ok ex_argv) = 0
   \<and> stdout (snd (main env_ok ex_argv)) =
       [''Registration failed: '' @ quoted ''SiteRegistrationResponse''
          @ '' object has no attribute '' @ quoted ''get'']"
proof -
  have len: "7 \<le> length ex_argv" by (simp add: ex_argv_def)
  have c: "RegistrationClient_init (ex_argv ! 1) (ex_argv ! 4) (ex_argv ! 5) (ex_argv ! 6) None
             = ex_client"
    by (simp add: ex_argv_def ex_client_def)
  have a: "ex_argv ! 2 = ''alpha''" "ex_argv ! 3 = ''PUBKEY123''"
    by (simp_all add: ex_argv_def)
  have h: "fst (get_headers env_ok ex_client io_init) =
             Inr (base_headers @ [(''Authorization'', ''Bearer tok'')])"
    by (simp add: get_headers_outcome get_jwt_outcome ex_defs run_defs)
  have r: "fst (register_site env_ok ex_client ''alpha'' ''PUBKEY123'' io_init) =
     Inr \<lparr>resp_id = 7, resp_site_name = ''alpha'', created_at = ''2024-01-01T00:00:00Z'',
          created_by = ''cid''\<rparr>"
    by (simp add: register_site_outcome h) (simp add: ex_defs run_defs)
  from main_after_parsing(1,3) [OF len, of env_ok] r c a
  show ?thesis by simp
qed

text \<open>
  Claim C8, as amended. Whatever calls were made before, \<open>register_site\<close> first makes the
  token POST; when that exchange yields an access token, the registration POST follows with
  the headers Accept and Content-Type, and with Authorization, \<open>Bearer\<close> and the token of
  that exchange, exactly when the token is truthy. A string token is formatted as itself
  and is truthy when it is not empty.
\<close>

theorem register_site_headers:
  assumes "http_post e (posts s) (token_request self) = Inr token_resp"
    and "raise_for_status token_resp = Inr ()"
    and "json_result token_resp = Inr body"
    and "getitem body ''access_token'' = Inr access_token"
  shows "posts (snd (snd (register_site e self sname pkey s))) =
           posts s @ [token_request self,
             registration_request (api_url self @ ''/register'')
               [(''site_name'', PStr sname), (''public_key'', PStr pkey)]
               (if truthy access_token
                then [(''Accept'', ''application/json''), (''Content-Type'', ''application/json''),
                      (''Authorization'', ''Bearer '' @ format_value e access_token)]
                else [(''Accept'', ''application/json''), (''Content-Type'', ''application/json'')])
               (timeout self)]
       \<and> format_value e (PStr t) = t
       \<and> truthy (PStr t) = (t \<noteq> [])"
proof -
  from assms have "fst (get_headers e self s) =
      Inr (if truthy access_token
           then base_headers @ [(''Authorization'', ''Bearer '' @ format_value e access_token)]
           else base_headers)"
    by (simp add: get_headers_outcome get_jwt_outcome)
  then show ?thesis
    by (simp add: register_site_posts base_headers_def format_value_def)
qed

text \<open>
  The run with both endpoints answering as expected.
\<close>

theorem register_site_headers_witness:
  "map req_headers (posts (snd (snd (register_site env_ok ex_client ''alpha'' ''PUBKEY123'' io_init)))) =
     [[(''Content-Type'', ''application/x-www-form-urlencoded'')],
      [(''Accept'', ''application/json''), (''Content-Type'', ''application/json''),
       (''Authorization'', ''Bearer tok'')]]"
proof -
  have a: "http_post env_ok (posts io_init) (token_request ex_client) =
             Inr (ex_token_response 200 (PStr ''tok''))"
    by (simp add: ex_defs run_defs)
  have b: "raise_for_status (ex_token_response 200 (PStr ''tok'')) = Inr ()"
    by (simp add: ex_defs raise_for_status_def)
  have c: "json_result (ex_token_response 200 (PStr ''tok'')) =
             Inr (PDict [(''access_token'', PStr ''tok''), (''token_type'', PStr ''Bearer'')])"
    by (simp add: ex_defs)
  have d: "getitem (PDict [(''access_token'', PStr ''tok''), (''token_type'', PStr ''Bearer'')])
             ''access_token'' = Inr (PStr ''tok'')"
    by simp
  from register_site_headers [OF a b c d, of "''alpha''" "''PUBKEY123''"]
  show ?thesis
    by (simp add: io_init_def token_request_def registration_request_def format_value_def)
qed

text \<open>
  Claim C8, as stated, fails: when the token endpoint answers 200 with an empty access
  token, the registration POST carries Accept and Content-Type only.
\<close>

theorem empty_token_omits_authorization:
  "fst (get_jwt_access_token env_token_empty ex_client io_init) = Inr (PStr [])
   \<and> map req_headers
        (posts (snd (snd (register_site env_token_empty ex_client ''alpha'' ''PUBKEY123'' io_init)))) =
       [[(''Content-Type'', ''application/x-www-form-urlencoded'')],
        [(''Accept'', ''application/json''), (''Content-Type'', ''application/json'')]]"
proof -
  have t: "fst (get_jwt_access_token env_token_empty ex_client io_init) = Inr (PStr [])"
    by (simp add: get_jwt_outcome ex_defs run_defs)
  then have h: "fst (get_headers env_token_empty ex_client io_init) = Inr base_headers"
    by (simp add: get_headers_outcome)
  have "map req_headers
        (posts (snd (snd (register_site env_token_empty ex_client ''alpha'' ''PUBKEY123'' io_init)))) =
       [[(''Content-Type'', ''application/x-www-form-urlencoded'')],
        [(''Accept'', ''application/json''), (''Content-Type'', ''application/json'')]]"
    by (simp add: register_site_posts h)
       (simp add: io_init_def token_request_def registration_request_def base_headers_def)
  with t show ?thesis by simp
qed

subsection \<open>The text of an API error determines status and body\<close>

lemma digit_char_inj: "a < 10 \<Longrightarrow> b < 10 \<Longrightarrow> digit_char a = digit_char b \<Longrightarrow> a = b"
  unfolding digit_char_def
  using nth_eq_iff_index_eq [of "''0123456789''" a b] by simp

lemma digit_char_is_digit: "d < 10 \<Longrightarrow> digit_char d \<in> set ''0123456789''"
  unfolding digit_char_def using nth_mem [of d "''0123456789''"] by simp

lemma str_nat_digits: "set (str_nat n) \<subseteq> set ''0123456789''"
proof (induction n rule: str_nat.induct)
  case (1 n)
  show ?case
  proof (cases "n < 10")
    case True
    then show ?thesis
      using digit_char_is_digit [of n] by (subst str_nat.simps) simp
  next
    case False
    have "n mod 10 < 10" by simp
    then have "digit_char (n mod 10) \<in> set ''0123456789''" by (rule digit_char_is_digit)
    with False 1 show ?thesis
      by (subst str_nat.simps) simp
  qed
qed

lemma str_nat_nonempty: "str_nat n \<noteq> []"
  by (subst str_nat.simps) simp

lemma str_nat_inj: "str_nat n = str_nat m \<Longrightarrow> n = m"
proof (induction n arbitrary: m rule: str_nat.induct)
  case (1 n)
  show ?case
  proof (cases "n < 10")
    case n: True
    show ?thesis
    proof (cases "m < 10")
      case True
      with n 1(2) show ?thesis
        by (auto simp: str_nat.simps [of n] str_nat.simps [of m] dest: digit_char_inj)
    next
      case False
      with n 1(2) str_nat_nonempty [of "m div 10"] show ?thesis
        by (auto simp: str_nat.simps [of n] str_nat.simps [of m] Cons_eq_append_conv)
    qed
  next
    case n: False
    show ?thesis
    proof (cases "m < 10")
      case True
      with n 1(2) str_nat_nonempty [of "n div 10"] show ?thesis
        by (auto simp: str_nat.simps [of n] str_nat.simps [of m] append_eq_Cons_conv)
    next
      case False
      with n 1(2) have eq: "str_nat (n div 10) = str_nat (m div 10)"
        and d: "digit_char (n mod 10) = digit_char (m mod 10)"
        by (auto simp: str_nat.simps [of n] str_nat.simps [of m])
      from 1(1) [OF n eq] have "n div 10 = m div 10" .
      moreover from d have "n mod 10 = m mod 10"
        by (intro digit_char_inj) simp_all
      ultimately show ?thesis
        by (metis div_mult_mod_eq)
    qed
  qed
qed

lemma str_nat_no_colon: "CHR '':'' \<notin> set (str_nat n)"
proof -
  have "CHR '':'' \<notin> set ''0123456789''" by simp
  with str_nat_digits [of n] show ?thesis by blast
qed

lemma str_nat_no_dash: "CHR ''-'' \<notin> set (str_nat n)"
proof -
  have "CHR ''-'' \<notin> set ''0123456789''" by simp
  with str_nat_digits [of n] show ?thesis by blast
qed

lemma str_int_no_colon: "CHR '':'' \<notin> set (str_int i)"
  by (simp add: str_int_def str_nat_no_colon)

lemma str_int_inj: "str_int i = str_int j \<Longrightarrow> i = j"
proof -
  assume eq: "str_int i = str_int j"
  have nodash: "CHR ''-'' # r \<noteq> str_nat k" for k r
    using str_nat_no_dash [of k] by (metis list.set_intros(1))
  show ?thesis
  proof (cases "i < 0")
    case i: True
    show ?thesis
    proof (cases "j < 0")
      case True
      with i eq have "str_nat (nat (- i)) = str_nat (nat (- j))" by (simp add: str_int_def)
      then have "nat (- i) = nat (- j)" by (rule str_nat_inj)
      with i True show ?thesis by simp
    next
      case False
      with i eq have "CHR ''-'' # str_nat (nat (- i)) = str_nat (nat j)" by (simp add: str_int_def)
      with nodash show ?thesis by blast
    qed
  next
    case i: False
    show ?thesis
    proof (cases "j < 0")
      case True
      with i eq have "CHR ''-'' # str_nat (nat (- j)) = str_nat (nat i)" by (simp add: str_int_def)
      with nodash show ?thesis by blast
    next
      case False
      with i eq have "str_nat (nat i) = str_nat (nat j)" by (simp add: str_int_def)
      then have "nat i = nat j" by (rule str_nat_inj)
      with i False show ?thesis by simp
    qed
  qed
qed

lemma api_error_message_inj:
  assumes "api_error_message c b = api_error_message c' b'"
  shows "c = c' \<and> b = b'"
proof -
  let ?P = "\<lambda>x. x \<noteq> CHR '':''"
  have split: "takeWhile ?P (str_int k @ '': '' @ r) = str_int k" for k r
  proof -
    have "\<And>x. x \<in> set (str_int k) \<Longrightarrow> ?P x" using str_int_no_colon [of k] by blast
    then have "takeWhile ?P (str_int k @ '': '' @ r) = str_int k @ takeWhile ?P ('': '' @ r)"
      by (rule takeWhile_append2)
    then show ?thesis by simp
  qed
  from assms have eq: "str_int c @ '': '' @ b = str_int c' @ '': '' @ b'"
    by (simp add: api_error_message_def)
  then have "takeWhile ?P (str_int c @ '': '' @ b) = takeWhile ?P (str_int c' @ '': '' @ b')"
    by simp
  then have "str_int c = str_int c'" by (simp only: split)
  then have c: "c = c'" by (rule str_int_inj)
  with eq show ?thesis by simp
qed

text \<open>
  Claim C2. When the headers were obtained and the registration endpoint answers,
  \<open>register_site\<close> returns only for status 201, and then its outcome is the deserialization
  of the body: the validated response when the body decodes to a mapping that validates.
  For every other status it raises RegistrationApiError, a class of its own, whose text is
  \<open>Error\<close>, the status in decimal, a colon and the raw body; that text determines both
  the status and the body.
\<close>

theorem register_site_status:
  assumes "fst (get_headers e self s) = Inr headers"
    and "http_post e (posts s @ [token_request self])
           (registration_request (api_url self @ ''/register'')
              [(''site_name'', PStr sname), (''public_key'', PStr pkey)] headers (timeout self))
         = Inr resp"
  shows "(status_code resp = 201 \<longrightarrow>
            fst (register_site e self sname pkey s) = deserialize e resp)
       \<and> (status_code resp = 201 \<and> json_result resp = Inr (PDict kvs)
            \<and> model_validate e kvs = Inr result \<longrightarrow>
            fst (register_site e self sname pkey s) = Inr result)
       \<and> (status_code resp \<noteq> 201 \<longrightarrow>
            fst (register_site e self sname pkey s) =
              Inl (Exn RegistrationApiError
                     (''Error '' @ str_int (status_code resp) @ '': '' @ resp_text resp)))
       \<and> (\<forall>code body.
             ''Error '' @ str_int code @ '': '' @ body =
               ''Error '' @ str_int (status_code resp) @ '': '' @ resp_text resp
             \<longrightarrow> code = status_code resp \<and> body = resp_text resp)
       \<and> (\<forall>res. fst (register_site e self sname pkey s) = Inr res \<longrightarrow> status_code resp = 201)"
proof -
  have o: "fst (register_site e self sname pkey s) =
             (if status_code resp \<noteq> 201
              then Inl (Exn RegistrationApiError (api_error_message (status_code resp) (resp_text resp)))
              else deserialize e resp)"
    using assms by (simp add: register_site_outcome)
  have inj: "\<forall>code body.
             ''Error '' @ str_int code @ '': '' @ body =
               ''Error '' @ str_int (status_code resp) @ '': '' @ resp_text resp
             \<longrightarrow> code = status_code resp \<and> body = resp_text resp"
    using api_error_message_inj [unfolded api_error_message_def] by blast
  have d: "json_result resp = Inr (PDict kvs) \<and> model_validate e kvs = Inr result
             \<longrightarrow> deserialize e resp = Inr result"
    by (simp add: deserialize_def)
  from o d inj show ?thesis
    by (simp add: api_error_message_def)
qed

text \<open>
  The runs with the registration endpoint answering 409 and 201.
\<close>

theorem register_site_status_witness:
  "fst (register_site env_conflict ex_client ''alpha'' ''PUBKEY123'' io_init) =
     Inl (Exn RegistrationApiError ''Error 409: site exists'')
   \<and> fst (register_site env_ok ex_client ''alpha'' ''PUBKEY123'' io_init) =
       Inr \<lparr>resp_id = 7, resp_site_name = ''alpha'', created_at = ''2024-01-01T00:00:00Z'',
            created_by = ''cid''\<rparr>"
proof -
  let ?h = "base_headers @ [(''Authorization'', ''Bearer tok'')]"
  have h1: "fst (get_headers env_conflict ex_client io_init) = Inr ?h"
    by (simp add: get_headers_outcome get_jwt_outcome ex_defs run_defs)
  have p1: "http_post env_conflict (posts io_init @ [token_request ex_client])
             (registration_request (api_url ex_client @ ''/register'')
                [(''site_name'', PStr ''alpha''), (''public_key'', PStr ''PUBKEY123'')] ?h
                (timeout ex_client))
           = Inr ex_conflict"
    by (simp add: ex_defs run_defs)
  have s1: "status_code ex_conflict \<noteq> 201" "resp_text ex_conflict = ''site exists''"
    "str_int (status_code ex_conflict) = ''409''"
    by (simp_all add: ex_defs str_int_def str_nat.simps digit_char_def)
  have h2: "fst (get_headers env_ok ex_client io_init) = Inr ?h"
    by (simp add: get_headers_outcome get_jwt_outcome ex_defs run_defs)
  have p2: "http_post env_ok (posts io_init @ [token_request ex_client])
             (registration_request (api_url ex_client @ ''/register'')
                [(''site_name'', PStr ''alpha''), (''public_key'', PStr ''PUBKEY123'')] ?h
                (timeout ex_client))
           = Inr ex_created"
    by (simp add: ex_defs run_defs)
  have s2: "status_code ex_created = 201"
    "json_result ex_created = Inr (PDict [(''id'', PInt 7), (''site_name'', PStr ''alpha''),
                    (''created_at'', PStr ''2024-01-01T00:00:00Z''), (''created_by'', PStr ''cid'')])"
    "model_validate env_ok [(''id'', PInt 7), (''site_name'', PStr ''alpha''),
                    (''created_at'', PStr ''2024-01-01T00:00:00Z''), (''created_by'', PStr ''cid'')]
       = Inr \<lparr>resp_id = 7, resp_site_name = ''alpha'', created_at = ''2024-01-01T00:00:00Z'',
            created_by = ''cid''\<rparr>"
    by (simp_all add: ex_defs)
  from register_site_status [OF h1 p1] s1
  have a: "fst (register_site env_conflict ex_client ''alpha'' ''PUBKEY123'' io_init) =
     Inl (Exn RegistrationApiError ''Error 409: site exists'')"
    by simp
  from register_site_status [OF h2 p2] s2
  have b: "fst (register_site env_ok ex_client ''alpha'' ''PUBKEY123'' io_init) =
       Inr \<lparr>resp_id = 7, resp_site_name = ''alpha'', created_at = ''2024-01-01T00:00:00Z'',
            created_by = ''cid''\<rparr>"
    by blast
  from a b show ?thesis by simp
qed

end
